theory Spec2Isabelle
  imports Complex_Main
begin

section \<open>Vegetation prediction notebook: data loading and regression model\<close>

text \<open>
  The development embeds the three classes of
  \<^verbatim>\<open>challenges/3-sentinel-maps/vegetation-prediction.ipynb\<close>:
  \<^verbatim>\<open>Dataset\<close>, \<^verbatim>\<open>Dataloader\<close> and \<^verbatim>\<open>CNN_Regression\<close>. Python exceptions are the left
  summand of a sum type, objects are records, and a method that could assign to
  \<^verbatim>\<open>self\<close> returns the object next to its result.
\<close>

subsection \<open>Python values\<close>

datatype py_error =
    IndexError
  | KeyError string
  | FileNotFoundError string
  | RuntimeError
  | ValueError

text \<open>
  What a method of the notebook can hand back: \<^verbatim>\<open>None\<close> (a body that ends without
  \<^verbatim>\<open>return\<close>), the literal \<^verbatim>\<open>...\<close>, a number, or a pair of an image (channels of rows of
  pixels) and a label.
\<close>

type_synonym image = "real list list list"

datatype py_value =
    PyNone
  | PyEllipsis
  | PyFloat real
  | PyTuple image real

text \<open>\<^verbatim>\<open>xs[i]\<close> on a list: a negative index counts from the end, an index outside raises.\<close>

definition list_getitem :: "'a list \<Rightarrow> int \<Rightarrow> py_error + 'a" where
  "list_getitem xs i =
     (if 0 \<le> i \<and> i < int (length xs) then Inr (xs ! nat i)
      else if i < 0 \<and> - int (length xs) \<le> i then Inr (xs ! nat (int (length xs) + i))
      else Inl IndexError)"

text \<open>
  \<^verbatim>\<open>os.path.join(a, b)\<close> on POSIX paths: an absolute \<open>b\<close> replaces \<open>a\<close>, otherwise the
  two are joined by exactly one separator.
\<close>

definition os_path_join :: "string \<Rightarrow> string \<Rightarrow> string" where
  "os_path_join a b =
     (if b \<noteq> [] \<and> hd b = CHR ''/'' then b
      else if a = [] \<or> last a = CHR ''/'' then a @ b
      else a @ ''/'' @ b)"

subsection \<open>Cells of the split table\<close>

text \<open>
  A cell of the table read by \<^verbatim>\<open>pd.read_csv\<close> is a text or a missing value (\<^verbatim>\<open>nan\<close>).
  \<open>format_cell\<close> is what an f-string makes of it.
\<close>

datatype cell = Str string | NaN

fun format_cell :: "cell \<Rightarrow> string" where
  "format_cell (Str s) = s"
| "format_cell NaN = ''nan''"

subsection \<open>The class \<^verbatim>\<open>Dataset\<close>\<close>

record Dataset =
  data_dir :: string
  files :: "cell list"
  seasons :: "string list"
  bands :: "string list"
  s2_path :: string
  veg_path :: string
  s2_bands :: "string list"
  veg_bands :: "string list"

definition Dataset_init ::
  "string \<Rightarrow> cell list \<Rightarrow> string list \<Rightarrow> string list \<Rightarrow> Dataset" where
  "Dataset_init dir fs ss bs =
     \<lparr> data_dir = dir,
       files = fs,
       seasons = ss,
       bands = bs,
       s2_path = os_path_join dir ''sentinel2-2020'',
       veg_path = os_path_join dir ''vegetation-2020'',
       s2_bands = concat (map (\<lambda>season. map (\<lambda>band. season @ ''_'' @ band) bs) ss),
       veg_bands = [''Percent_Tree_Cover_2020''] \<rparr>"

definition Dataset_len :: "Dataset \<Rightarrow> nat" where
  "Dataset_len self = length (files self)"

text \<open>
  The two local variables of \<^verbatim>\<open>__getitem__\<close>. Evaluating \<^verbatim>\<open>self.files[idx]\<close> is the
  only step that can raise.
\<close>

definition getitem_paths :: "Dataset \<Rightarrow> int \<Rightarrow> py_error + (string \<times> string)" where
  "getitem_paths self idx =
     (case list_getitem (files self) idx of
        Inl e \<Rightarrow> Inl e
      | Inr f \<Rightarrow>
          Inr (os_path_join (s2_path self) (format_cell f @ ''.tif''),
               os_path_join (veg_path self) (format_cell f @ ''.tif'')))"

text \<open>
  \<^verbatim>\<open>__getitem__\<close> builds the two paths and ends: the body after them is two \<^verbatim>\<open>TODO\<close>
  comments, so the call yields \<^verbatim>\<open>None\<close>. It opens no file and assigns no attribute;
  the object is returned as it came.
\<close>

definition Dataset_getitem :: "Dataset \<Rightarrow> int \<Rightarrow> (py_error + py_value) \<times> Dataset" where
  "Dataset_getitem self idx =
     (case getitem_paths self idx of
        Inl e \<Rightarrow> (Inl e, self)
      | Inr (s2_file, veg_file) \<Rightarrow> (Inr PyNone, self))"

text \<open>A caller indexing the dataset several times in a row, whatever each call yields.\<close>

fun getitem_calls :: "Dataset \<Rightarrow> int list \<Rightarrow> Dataset" where
  "getitem_calls self [] = self"
| "getitem_calls self (idx # rest) = getitem_calls (snd (Dataset_getitem self idx)) rest"

subsection \<open>The split table\<close>

text \<open>
  The constructor of \<^verbatim>\<open>Dataloader\<close> parses the CSV file with \<^verbatim>\<open>pd.read_csv\<close>; the
  embedding starts from the parsed table, a list of named columns of equal length.
  \<open>df_getitem\<close> is \<^verbatim>\<open>df[name]\<close>, \<open>eq_mask\<close> is \<^verbatim>\<open>column == text\<close>, \<open>df_where\<close> is
  \<^verbatim>\<open>df[mask]\<close> and keeps the rows whose mask entry is true.
\<close>

type_synonym DataFrame = "(string \<times> cell list) list"

definition df_getitem :: "DataFrame \<Rightarrow> string \<Rightarrow> py_error + cell list" where
  "df_getitem df name =
     (case map_of df name of None \<Rightarrow> Inl (KeyError name) | Some col \<Rightarrow> Inr col)"

definition eq_mask :: "cell list \<Rightarrow> string \<Rightarrow> bool list" where
  "eq_mask col text = map (\<lambda>c. c = Str text) col"

definition keep_rows :: "cell list \<Rightarrow> bool list \<Rightarrow> cell list" where
  "keep_rows col sel = map fst (filter snd (zip col sel))"

definition df_where :: "DataFrame \<Rightarrow> bool list \<Rightarrow> DataFrame" where
  "df_where df sel = map (\<lambda>(name, col). (name, keep_rows col sel)) df"

text \<open>
  \<^verbatim>\<open>df[df['split'] == text]['identifier'].tolist()\<close>: the mask is computed first, so a
  missing \<^verbatim>\<open>split\<close> column is reported before a missing \<^verbatim>\<open>identifier\<close> column.
\<close>

definition split_files :: "DataFrame \<Rightarrow> string \<Rightarrow> py_error + cell list" where
  "split_files df text =
     (case df_getitem df ''split'' of
        Inl e \<Rightarrow> Inl e
      | Inr col \<Rightarrow> df_getitem (df_where df (eq_mask col text)) ''identifier'')"

subsection \<open>The class \<^verbatim>\<open>Dataloader\<close>\<close>

record Dataloader =
  data_dir :: string
  split_file :: DataFrame
  seasons :: "string list"
  bands :: "string list"
  batch_size :: int
  train_files :: "cell list"
  val_files :: "cell list"
  test_files :: "cell list"
  train_dataset :: Dataset
  val_dataset :: Dataset
  test_dataset :: Dataset

definition Dataloader_init ::
  "string \<Rightarrow> DataFrame \<Rightarrow> string list \<Rightarrow> string list \<Rightarrow> int \<Rightarrow> py_error + Dataloader" where
  "Dataloader_init dir df ss bs n =
     (case split_files df ''train'' of
        Inl e \<Rightarrow> Inl e
      | Inr train \<Rightarrow>
     (case split_files df ''val'' of
        Inl e \<Rightarrow> Inl e
      | Inr val \<Rightarrow>
     (case split_files df ''test'' of
        Inl e \<Rightarrow> Inl e
      | Inr test \<Rightarrow>
          Inr \<lparr> data_dir = dir,
                split_file = df,
                seasons = ss,
                bands = bs,
                batch_size = n,
                train_files = train,
                val_files = val,
                test_files = test,
                train_dataset = Dataset_init dir train ss bs,
                val_dataset = Dataset_init dir val ss bs,
                test_dataset = Dataset_init dir test ss bs \<rparr>)))"

text \<open>
  The three loader methods construct a \<^verbatim>\<open>torch.utils.data.DataLoader\<close>; the record
  holds the arguments each of them passes.
\<close>

record DataLoader =
  dataset :: Dataset
  batch_size :: int
  shuffle :: bool

definition train_dataloader :: "Dataloader \<Rightarrow> DataLoader" where
  "train_dataloader self =
     \<lparr> dataset = train_dataset self,
       batch_size = Dataloader.batch_size self,
       shuffle = True \<rparr>"

definition val_dataloader :: "Dataloader \<Rightarrow> DataLoader" where
  "val_dataloader self =
     \<lparr> dataset = val_dataset self,
       batch_size = Dataloader.batch_size self,
       shuffle = False \<rparr>"

definition test_dataloader :: "Dataloader \<Rightarrow> DataLoader" where
  "test_dataloader self =
     \<lparr> dataset = test_dataset self,
       batch_size = Dataloader.batch_size self,
       shuffle = False \<rparr>"

subsection \<open>Layers of the network, on tensor shapes\<close>

text \<open>
  The network is followed on the shape of the tensor it transforms (a list of
  dimension sizes); the floating-point entries are not modelled. A layer applied to a
  shape it does not accept makes torch raise \<^verbatim>\<open>RuntimeError\<close>.
\<close>

type_synonym shape = "nat list"

datatype Conv2d =
  Conv2d (in_channels: nat) (out_channels: nat) (kernel_size: nat) (stride: nat)

datatype MaxPool2d = MaxPool2d (pool_size: nat)

datatype Linear = Linear (in_features: nat) (out_features: nat)

datatype activation = relu | elu

datatype loss_fn = MSELoss

text \<open>
  A convolution without padding or dilation maps a side of \<open>n\<close> pixels to
  \<open>(n - k) div s + 1\<close>; the kernel must fit and the channels must agree. The input is a
  batch \<open>[N, C, H, W]\<close> or a single image \<open>[C, H, W]\<close>. A layer built with zero input
  channels has an empty weight, and torch hands back a tensor of zero channels.
\<close>

definition window_out :: "nat \<Rightarrow> nat \<Rightarrow> nat \<Rightarrow> nat" where
  "window_out n k s = (n - k) div s + 1"

fun Conv2d_call :: "Conv2d \<Rightarrow> shape \<Rightarrow> py_error + shape" where
  "Conv2d_call (Conv2d cin cout k s) [n, c, h, w] =
     (if c = cin \<and> k \<le> h \<and> k \<le> w
      then Inr [n, if cin = 0 then 0 else cout, window_out h k s, window_out w k s]
      else Inl RuntimeError)"
| "Conv2d_call (Conv2d cin cout k s) [c, h, w] =
     (if c = cin \<and> k \<le> h \<and> k \<le> w
      then Inr [if cin = 0 then 0 else cout, window_out h k s, window_out w k s]
      else Inl RuntimeError)"
| "Conv2d_call (Conv2d cin cout k s) x = Inl RuntimeError"

text \<open>\<^verbatim>\<open>MaxPool2d(kernel_size=k)\<close> strides by its kernel size.\<close>

fun MaxPool2d_call :: "MaxPool2d \<Rightarrow> shape \<Rightarrow> py_error + shape" where
  "MaxPool2d_call (MaxPool2d k) [n, c, h, w] =
     (if k \<le> h \<and> k \<le> w
      then Inr [n, c, window_out h k k, window_out w k k]
      else Inl RuntimeError)"
| "MaxPool2d_call (MaxPool2d k) [c, h, w] =
     (if k \<le> h \<and> k \<le> w
      then Inr [c, window_out h k k, window_out w k k]
      else Inl RuntimeError)"
| "MaxPool2d_call (MaxPool2d k) x = Inl RuntimeError"

text \<open>An activation function works entry by entry and keeps the shape.\<close>

definition activation_call :: "activation \<Rightarrow> shape \<Rightarrow> shape" where
  "activation_call f x = x"

text \<open>
  \<^verbatim>\<open>x.view(n, -1)\<close>: the second size is inferred from the number of entries, which
  \<open>n\<close> must divide.
\<close>

definition view_rows :: "shape \<Rightarrow> nat \<Rightarrow> py_error + shape" where
  "view_rows x n =
     (if n = 0 \<or> prod_list x mod n \<noteq> 0 then Inl RuntimeError
      else Inr [n, prod_list x div n])"

definition and_then :: "py_error + 'a \<Rightarrow> ('a \<Rightarrow> py_error + 'b) \<Rightarrow> py_error + 'b" where
  "and_then r f = (case r of Inl e \<Rightarrow> Inl e | Inr x \<Rightarrow> f x)"

subsection \<open>The class \<^verbatim>\<open>CNN_Regression\<close>\<close>

text \<open>
  The constructor runs \<^verbatim>\<open>feature_extractor\<close> on the object before the linear layers
  exist, so the attributes set up to that point form a record of their own, and the
  full object extends it.
\<close>

record CNN_backbone =
  input_shape :: shape
  input_channels :: nat
  output_dim :: nat
  learning_rate :: real
  conv1 :: Conv2d
  conv2 :: Conv2d
  conv3 :: Conv2d
  conv4 :: Conv2d
  activation_fn :: activation
  output_activation_fn :: activation
  pool1 :: MaxPool2d
  pool2 :: MaxPool2d

record CNN_Regression = CNN_backbone +
  fc1 :: Linear
  fc2 :: Linear
  fc3 :: Linear
  output_layer :: Linear
  criterion :: loss_fn

definition feature_extractor :: "'a CNN_backbone_scheme \<Rightarrow> shape \<Rightarrow> py_error + shape" where
  "feature_extractor self x =
     and_then (Conv2d_call (conv1 self) x) (\<lambda>x.
     and_then (Conv2d_call (conv2 self) (activation_call (activation_fn self) x)) (\<lambda>x.
     and_then (MaxPool2d_call (pool1 self) (activation_call (activation_fn self) x)) (\<lambda>x.
     and_then (Conv2d_call (conv3 self) x) (\<lambda>x.
     and_then (Conv2d_call (conv4 self) (activation_call (activation_fn self) x)) (\<lambda>x.
     MaxPool2d_call (pool2 self) (activation_call (activation_fn self) x))))))"

text \<open>
  \<^verbatim>\<open>_get_output_shape\<close> sends one random image of the given shape through the
  convolutional layers and returns the number of entries that come out.
\<close>

definition get_output_shape :: "'a CNN_backbone_scheme \<Rightarrow> shape \<Rightarrow> py_error + nat" where
  "get_output_shape self sh =
     and_then (feature_extractor self (1 # sh)) (\<lambda>output_feature.
     and_then (view_rows output_feature 1) (\<lambda>v. Inr (v ! 1)))"

definition CNN_Regression_init :: "shape \<Rightarrow> real \<Rightarrow> nat \<Rightarrow> py_error + CNN_Regression" where
  "CNN_Regression_init sh lr out_dim =
     (case sh of
        [] \<Rightarrow> Inl IndexError
      | ch # _ \<Rightarrow>
          (let backbone =
             \<lparr> input_shape = sh,
               input_channels = ch,
               output_dim = out_dim,
               learning_rate = lr,
               conv1 = Conv2d ch 32 3 1,
               conv2 = Conv2d 32 32 3 2,
               conv3 = Conv2d 32 64 3 2,
               conv4 = Conv2d 64 64 3 2,
               activation_fn = relu,
               output_activation_fn = elu,
               pool1 = MaxPool2d 2,
               pool2 = MaxPool2d 2 \<rparr>
           in and_then (get_output_shape backbone sh) (\<lambda>hidden_dim.
                Inr (CNN_backbone.extend backbone
                  (CNN_Regression.fields
                     (Linear hidden_dim 512)
                     (Linear 512 256)
                     (Linear 256 128)
                     (Linear 128 out_dim)
                     MSELoss)))))"

text \<open>
  \<^verbatim>\<open>forward\<close>: the features, reshaped to one row per batch element. The regression
  head is a \<^verbatim>\<open>TODO\<close> comment; no linear layer is applied.
\<close>

definition forward :: "CNN_Regression \<Rightarrow> shape \<Rightarrow> py_error + shape" where
  "forward self x =
     and_then (feature_extractor self x) (\<lambda>x.
     (case x of [] \<Rightarrow> Inl IndexError | n # _ \<Rightarrow> view_rows x n))"

text \<open>
  A batch is the shape of the stacked images and the list of labels.
  \<^verbatim>\<open>compute_loss\<close> unpacks it, binds both \<^verbatim>\<open>predictions\<close> and \<^verbatim>\<open>loss\<close> to the literal
  \<^verbatim>\<open>...\<close> and returns the latter; neither \<^verbatim>\<open>forward\<close> nor the criterion is called.
\<close>

type_synonym batch = "shape \<times> real list"

definition compute_loss :: "CNN_Regression \<Rightarrow> batch \<Rightarrow> py_value" where
  "compute_loss self b =
     (case b of (input, labels) \<Rightarrow>
        (let predictions = PyEllipsis; loss = PyEllipsis in loss))"

text \<open>
  The steps run inside the training framework, which owns the parameter tensors and
  receives the \<^verbatim>\<open>self.log\<close> calls. The state threaded through a step is the parameters
  and the \<^verbatim>\<open>self.log\<close> calls accepted so far, with their arguments.
\<close>

record log_call =
  name :: string
  val :: py_value
  on_step :: bool
  on_epoch :: bool
  logger :: bool
  prog_bar :: bool

record module_state =
  parameters :: "real list"
  log_calls :: "log_call list"

text \<open>
  \<^verbatim>\<open>LightningModule.log\<close> checks the value before anything else: a value that is no
  number (nor tensor, nor metric) raises \<^verbatim>\<open>ValueError\<close> and nothing is recorded.
\<close>

definition self_log :: "module_state \<Rightarrow> string \<Rightarrow> py_value \<Rightarrow> py_error + module_state" where
  "self_log st key v =
     (case v of
        PyFloat x \<Rightarrow>
          Inr (st\<lparr>log_calls := log_calls st @
                 [\<lparr> name = key, val = v, on_step = True, on_epoch = True,
                     logger = True, prog_bar = True \<rparr>]\<rparr>)
      | _ \<Rightarrow> Inl ValueError)"

text \<open>
  A step computes the loss, logs it and returns it. When \<^verbatim>\<open>self.log\<close> raises, the step
  ends there with the exception and the state as it was.
\<close>

definition training_step ::
  "CNN_Regression \<Rightarrow> module_state \<Rightarrow> batch \<Rightarrow> int \<Rightarrow> (py_error + py_value) \<times> module_state" where
  "training_step self st b batch_idx =
     (let loss = compute_loss self b in
        (case self_log st ''train_loss'' loss of
           Inl e \<Rightarrow> (Inl e, st)
         | Inr st' \<Rightarrow> (Inr loss, st')))"

definition validation_step ::
  "CNN_Regression \<Rightarrow> module_state \<Rightarrow> batch \<Rightarrow> int \<Rightarrow> (py_error + py_value) \<times> module_state" where
  "validation_step self st b batch_idx =
     (let loss = compute_loss self b in
        (case self_log st ''val_loss'' loss of
           Inl e \<Rightarrow> (Inl e, st)
         | Inr st' \<Rightarrow> (Inr loss, st')))"

definition test_step ::
  "CNN_Regression \<Rightarrow> module_state \<Rightarrow> batch \<Rightarrow> int \<Rightarrow> (py_error + py_value) \<times> module_state" where
  "test_step self st b batch_idx =
     (let loss = compute_loss self b in
        (case self_log st ''test_loss'' loss of
           Inl e \<Rightarrow> (Inl e, st)
         | Inr st' \<Rightarrow> (Inr loss, st')))"

text \<open>
  \<^verbatim>\<open>configure_optimizers\<close> builds an Adam optimizer over the parameters with the stored
  learning rate and returns it; it performs no update.
\<close>

datatype optimizer = Adam (params: "real list") (lr: real)

definition configure_optimizers :: "CNN_Regression \<Rightarrow> module_state \<Rightarrow> optimizer" where
  "configure_optimizers self st = Adam (parameters st) (learning_rate self)"

section \<open>Properties\<close>

subsection \<open>Dataset\<close>

lemma Dataset_getitem_self: "snd (Dataset_getitem self idx) = self"
  by (simp add: Dataset_getitem_def split: sum.splits prod.splits)

lemma getitem_calls_self: "getitem_calls self idxs = self"
  by (induction idxs) (simp_all add: Dataset_getitem_self)

text \<open>The channel names are one per pair of a season and a band, season by season.\<close>

lemma s2_bands_length:
  "length (s2_bands (Dataset_init dir fs ss bs)) = length ss * length bs"
  by (induction ss) (simp_all add: Dataset_init_def)

text \<open>An item access ends in one of two ways: \<^verbatim>\<open>None\<close>, or \<^verbatim>\<open>IndexError\<close>.\<close>

lemma Dataset_getitem_cases:
  "fst (Dataset_getitem self idx) = Inr PyNone \<or> fst (Dataset_getitem self idx) = Inl IndexError"
  by (simp add: Dataset_getitem_def getitem_paths_def list_getitem_def
      split: sum.splits prod.splits)

text \<open>
  Claim C1. For a tile of the split, \<^verbatim>\<open>__getitem__\<close> is to return an image with one
  channel per season and band, and a finite label. At the dataset of two tiles, two
  seasons and three bands the object lists the six channel names, but the item at
  index 0 is \<^verbatim>\<open>None\<close>: the lines that would open the rasters and return the pair are the
  \<^verbatim>\<open>TODO\<close> comments of the method.
\<close>

theorem getitem_returns_none:
  "length (s2_bands (Dataset_init ''data'' [Str ''t0'', Str ''t1'']
             [''spring'', ''summer''] [''B04'', ''B08'', ''B11''])) = 2 * 3 \<and>
   fst (Dataset_getitem (Dataset_init ''data'' [Str ''t0'', Str ''t1'']
             [''spring'', ''summer''] [''B04'', ''B08'', ''B11'']) 0) = Inr PyNone"
  by (simp add: Dataset_getitem_def getitem_paths_def list_getitem_def Dataset_init_def)

text \<open>
  Claim C2. \<^verbatim>\<open>__getitem__\<close> is to read the channels into one stacked tensor, reduce the
  label raster to its mean and return the pair. At index 1 of a two-tile dataset the
  method computes the two file paths and returns; its result is no pair of an image and a
  label, whatever the image and the label.
\<close>

theorem getitem_never_pair:
  "getitem_paths (Dataset_init ''data'' [Str ''t0'', Str ''t1''] [''spring''] [''B04'']) 1 =
     Inr (''data/sentinel2-2020/t1.tif'', ''data/vegetation-2020/t1.tif'') \<and>
   fst (Dataset_getitem (Dataset_init ''data'' [Str ''t0'', Str ''t1''] [''spring''] [''B04'']) 1)
     \<noteq> Inr (PyTuple img label)"
  by (simp add: Dataset_getitem_def getitem_paths_def list_getitem_def Dataset_init_def
      os_path_join_def)

text \<open>
  Claim C8. A missing raster or label file is to make \<^verbatim>\<open>__getitem__\<close> fail with
  \<^verbatim>\<open>FileNotFoundError\<close>. The method only builds path strings and never opens them, so
  its outcome depends on the object and the index alone: it is never
  \<^verbatim>\<open>FileNotFoundError\<close>, and for a data directory that does not exist the call returns
  \<^verbatim>\<open>None\<close>.
\<close>

theorem getitem_never_file_not_found:
  "fst (Dataset_getitem self idx) \<noteq> Inl (FileNotFoundError path) \<and>
   fst (Dataset_getitem (Dataset_init ''/nonexistent'' [Str ''t0''] ss bs) 0) = Inr PyNone"
  by (simp add: Dataset_getitem_def getitem_paths_def list_getitem_def Dataset_init_def
      split: sum.splits prod.splits)

text \<open>
  Claim C10. The length of a dataset built from a list of identifiers is the length of
  that list, and it is still that length after any sequence of item accesses.
\<close>

theorem Dataset_len_stable:
  "Dataset_len (Dataset_init dir fs ss bs) = length fs \<and>
   Dataset_len (getitem_calls (Dataset_init dir fs ss bs) idxs) = length fs"
  by (simp add: getitem_calls_self Dataset_len_def Dataset_init_def)

subsection \<open>Dataloader\<close>

text \<open>Selecting rows of the filtered table is selecting them column by column.\<close>

lemma df_getitem_where:
  "df_getitem (df_where df sel) nm =
     (case df_getitem df nm of Inl e \<Rightarrow> Inl e | Inr col \<Rightarrow> Inr (keep_rows col sel))"
proof -
  have "map_of (map (\<lambda>(name, col). (name, keep_rows col sel)) df) nm =
        map_option (\<lambda>col. keep_rows col sel) (map_of df nm)"
    by (induction df) auto
  then show ?thesis
    by (simp add: df_getitem_def df_where_def split: option.splits)
qed

lemma split_files_columns:
  assumes "df_getitem df ''identifier'' = Inr ids" and "df_getitem df ''split'' = Inr splits"
  shows "split_files df v = Inr (keep_rows ids (eq_mask splits v))"
  using assms by (simp add: split_files_def df_getitem_where)

lemma keep_rows_eq_mask:
  "length ids = length splits \<Longrightarrow>
   keep_rows ids (eq_mask splits v) = map fst (filter (\<lambda>(i, s). s = Str v) (zip ids splits))"
proof (induction ids splits rule: list_induct2)
  case Nil
  then show ?case by (simp add: keep_rows_def eq_mask_def)
next
  case (Cons x xs y ys)
  then show ?case by (simp add: keep_rows_def eq_mask_def)
qed

lemma set_keep_rows:
  assumes "length ids = length splits"
  shows "set (keep_rows ids (eq_mask splits v)) =
         {ids ! i | i. i < length ids \<and> splits ! i = Str v}"
proof -
  have "set (keep_rows ids (eq_mask splits v)) = fst ` {p \<in> set (zip ids splits). snd p = Str v}"
    using assms by (auto simp: keep_rows_eq_mask)
  also have "\<dots> = {ids ! i | i. i < length ids \<and> splits ! i = Str v}"
    using assms by (auto simp: set_zip image_iff) force
  finally show ?thesis .
qed

text \<open>
  With both columns present the constructor raises nothing, and each list holds the
  identifiers of the rows whose split cell is exactly the text of that split.
\<close>

lemma Dataloader_init_columns:
  assumes "df_getitem df ''identifier'' = Inr ids" and "df_getitem df ''split'' = Inr splits"
  shows "\<exists>dl. Dataloader_init dir df ss bs n = Inr dl \<and>
           train_files dl = keep_rows ids (eq_mask splits ''train'') \<and>
           val_files dl = keep_rows ids (eq_mask splits ''val'') \<and>
           test_files dl = keep_rows ids (eq_mask splits ''test'') \<and>
           Dataset.files (train_dataset dl) = train_files dl \<and>
           Dataset.files (val_dataset dl) = val_files dl \<and>
           Dataset.files (test_dataset dl) = test_files dl"
  by (simp add: Dataloader_init_def split_files_columns [OF assms] Dataset_init_def)

lemma keep_rows_disjoint:
  assumes "length ids = length splits" and "distinct ids" and "u \<noteq> v"
  shows "set (keep_rows ids (eq_mask splits u)) \<inter> set (keep_rows ids (eq_mask splits v)) = {}"
  using assms by (auto simp: set_keep_rows nth_eq_iff_index_eq)


text \<open>
  Claim C3, as amended. For a table with the two columns, keyed by identifier (no
  identifier twice) and with every split cell exactly \<^verbatim>\<open>train\<close>, \<^verbatim>\<open>val\<close> or \<^verbatim>\<open>test\<close>, the
  constructor succeeds, the three identifier lists are pairwise disjoint and together
  they hold every identifier of the table.
\<close>

theorem split_lists_partition:
  assumes ids: "df_getitem df ''identifier'' = Inr ids"
    and splits: "df_getitem df ''split'' = Inr splits"
    and len: "length ids = length splits"
    and keyed: "distinct ids"
    and known: "set splits \<subseteq> {Str ''train'', Str ''val'', Str ''test''}"
  shows "\<exists>dl. Dataloader_init dir df ss bs n = Inr dl \<and>
           set (train_files dl) \<inter> set (val_files dl) = {} \<and>
           set (train_files dl) \<inter> set (test_files dl) = {} \<and>
           set (val_files dl) \<inter> set (test_files dl) = {} \<and>
           set (train_files dl) \<union> set (val_files dl) \<union> set (test_files dl) = set ids"
proof -
  obtain dl where dl: "Dataloader_init dir df ss bs n = Inr dl"
    and tr: "train_files dl = keep_rows ids (eq_mask splits ''train'')"
    and va: "val_files dl = keep_rows ids (eq_mask splits ''val'')"
    and te: "test_files dl = keep_rows ids (eq_mask splits ''test'')"
    using Dataloader_init_columns [OF ids splits] by blast
  have d1: "set (train_files dl) \<inter> set (val_files dl) = {}"
    unfolding tr va by (rule keep_rows_disjoint [OF len keyed]) simp
  have d2: "set (train_files dl) \<inter> set (test_files dl) = {}"
    unfolding tr te by (rule keep_rows_disjoint [OF len keyed]) simp
  have d3: "set (val_files dl) \<inter> set (test_files dl) = {}"
    unfolding va te by (rule keep_rows_disjoint [OF len keyed]) simp
  have sub: "set (train_files dl) \<union> set (val_files dl) \<union> set (test_files dl) \<subseteq> set ids"
    unfolding tr va te using len by (auto simp: set_keep_rows)
  have sup: "set ids \<subseteq> set (train_files dl) \<union> set (val_files dl) \<union> set (test_files dl)"
  proof
    fix x assume "x \<in> set ids"
    then obtain i where i: "i < length ids" "ids ! i = x"
      by (auto simp: in_set_conv_nth)
    from i len have "splits ! i \<in> set splits"
      by simp
    with known have "splits ! i = Str ''train'' \<or> splits ! i = Str ''val'' \<or> splits ! i = Str ''test''"
      by blast
    with i have "x \<in> {ids ! k | k. k < length ids \<and> splits ! k = Str ''train''} \<or>
                 x \<in> {ids ! k | k. k < length ids \<and> splits ! k = Str ''val''} \<or>
                 x \<in> {ids ! k | k. k < length ids \<and> splits ! k = Str ''test''}"
      by blast
    then show "x \<in> set (train_files dl) \<union> set (val_files dl) \<union> set (test_files dl)"
      unfolding tr va te by (simp add: set_keep_rows [OF len])
  qed
  from dl d1 d2 d3 sub sup show ?thesis by blast
qed

text \<open>The amended claim at a table of three tiles, one per split.\<close>

theorem split_lists_partition_witness:
  "df_getitem [(''identifier'', [Str ''t0'', Str ''t1'', Str ''t2'']),
               (''split'', [Str ''train'', Str ''val'', Str ''test''])] ''identifier''
     = Inr [Str ''t0'', Str ''t1'', Str ''t2''] \<and>
   df_getitem [(''identifier'', [Str ''t0'', Str ''t1'', Str ''t2'']),
               (''split'', [Str ''train'', Str ''val'', Str ''test''])] ''split''
     = Inr [Str ''train'', Str ''val'', Str ''test''] \<and>
   distinct [Str ''t0'', Str ''t1'', Str ''t2''] \<and>
   (\<exists>dl. Dataloader_init ''data''
            [(''identifier'', [Str ''t0'', Str ''t1'', Str ''t2'']),
             (''split'', [Str ''train'', Str ''val'', Str ''test''])]
            [''spring''] [''B04''] 2 = Inr dl \<and>
         set (train_files dl) \<inter> set (val_files dl) = {} \<and>
         set (train_files dl) \<inter> set (test_files dl) = {} \<and>
         set (val_files dl) \<inter> set (test_files dl) = {} \<and>
         set (train_files dl) \<union> set (val_files dl) \<union> set (test_files dl) =
           set [Str ''t0'', Str ''t1'', Str ''t2''])"
proof -
  let ?ids = "[Str ''t0'', Str ''t1'', Str ''t2'']"
  let ?splits = "[Str ''train'', Str ''val'', Str ''test'']"
  let ?df = "[(''identifier'', ?ids), (''split'', ?splits)]"
  have a: "df_getitem ?df ''identifier'' = Inr ?ids"
    by (simp add: df_getitem_def)
  have b: "df_getitem ?df ''split'' = Inr ?splits"
    by (simp add: df_getitem_def)
  have c: "length ?ids = length ?splits"
    by simp
  have d: "distinct ?ids"
    by simp
  have e: "set ?splits \<subseteq> {Str ''train'', Str ''val'', Str ''test''}"
    by simp
  show ?thesis
    using a b d split_lists_partition [OF a b c d e, of "''data''" "[''spring'']" "[''B04'']" 2]
    by blast
qed

text \<open>
  Claim C3 as stated, for every table: it fails at a table of two tiles whose second row
  has the split \<^verbatim>\<open>holdout\<close>. The lists are \<open>[t0]\<close>, \<open>[]\<close> and \<open>[]\<close>, and their union
  misses \<open>t1\<close>.
\<close>

theorem split_lists_partition_counterexample:
  "df_getitem [(''identifier'', [Str ''t0'', Str ''t1'']),
               (''split'', [Str ''train'', Str ''holdout''])] ''identifier''
     = Inr [Str ''t0'', Str ''t1''] \<and>
   map_sum id train_files
     (Dataloader_init ''data''
        [(''identifier'', [Str ''t0'', Str ''t1'']),
         (''split'', [Str ''train'', Str ''holdout''])] [''spring''] [''B04''] 2)
     = Inr [Str ''t0''] \<and>
   map_sum id val_files
     (Dataloader_init ''data''
        [(''identifier'', [Str ''t0'', Str ''t1'']),
         (''split'', [Str ''train'', Str ''holdout''])] [''spring''] [''B04''] 2)
     = Inr [] \<and>
   map_sum id test_files
     (Dataloader_init ''data''
        [(''identifier'', [Str ''t0'', Str ''t1'']),
         (''split'', [Str ''train'', Str ''holdout''])] [''spring''] [''B04''] 2)
     = Inr [] \<and>
   set [Str ''t0''] \<union> set [] \<union> set [] \<noteq> set [Str ''t0'', Str ''t1'']"
  by (simp add: Dataloader_init_def split_files_def df_getitem_def df_where_def
      keep_rows_def eq_mask_def)




text \<open>
  Claim C4. Only the training loader is built with shuffling: \<^verbatim>\<open>train_dataloader\<close> passes
  \<^verbatim>\<open>shuffle=True\<close>, \<^verbatim>\<open>val_dataloader\<close> and \<^verbatim>\<open>test_dataloader\<close> pass \<^verbatim>\<open>shuffle=False\<close>, each
  over the dataset of its own split.
\<close>

theorem shuffle_train_only:
  "shuffle (train_dataloader self) \<and>
   \<not> shuffle (val_dataloader self) \<and>
   \<not> shuffle (test_dataloader self) \<and>
   dataset (train_dataloader self) = train_dataset self \<and>
   dataset (val_dataloader self) = val_dataset self \<and>
   dataset (test_dataloader self) = test_dataset self"
  by (simp add: train_dataloader_def val_dataloader_def test_dataloader_def)

subsection \<open>CNN_Regression\<close>

lemma Conv2d_call_batch:
  assumes "Conv2d_call (Conv2d cin cout k s) [n, c, h, w] = Inr y"
  shows "\<exists>h' w'. y = [n, if cin = 0 then 0 else cout, h', w'] \<and> 0 < h' \<and> 0 < w'"
  using assms by (auto simp: window_out_def split: if_splits)

lemma MaxPool2d_call_batch:
  assumes "MaxPool2d_call (MaxPool2d k) [n, c, h, w] = Inr y"
  shows "\<exists>h' w'. y = [n, c, h', w'] \<and> 0 < h' \<and> 0 < w'"
  using assms by (auto simp: window_out_def split: if_splits)

text \<open>The layers a constructed model holds.\<close>

lemma init_layers:
  assumes "CNN_Regression_init sh rate od = Inr model"
  shows "conv1 model = Conv2d (hd sh) 32 3 1 \<and> conv2 model = Conv2d 32 32 3 2 \<and>
         conv3 model = Conv2d 32 64 3 2 \<and> conv4 model = Conv2d 64 64 3 2 \<and>
         pool1 model = MaxPool2d 2 \<and> pool2 model = MaxPool2d 2 \<and>
         fc3 model = Linear 256 128 \<and> output_layer model = Linear 128 od"
proof (cases sh)
  case Nil
  with assms show ?thesis by (simp add: CNN_Regression_init_def)
next
  case (Cons ch rest)
  with assms show ?thesis
    by (auto simp: CNN_Regression_init_def and_then_def Let_def CNN_backbone.defs
        CNN_Regression.defs split: sum.splits)
qed

lemma feature_extractor_batch:
  assumes layers: "conv1 self = Conv2d c1 32 3 1" "conv2 self = Conv2d 32 32 3 2"
      "conv3 self = Conv2d 32 64 3 2" "conv4 self = Conv2d 64 64 3 2"
      "pool1 self = MaxPool2d 2" "pool2 self = MaxPool2d 2"
    and run: "feature_extractor self [n, c, h, w] = Inr y"
  shows "\<exists>h' w'. y = [n, 64, h', w'] \<and> 0 < h' \<and> 0 < w'"
proof -
  from run obtain x1 x2 x3 x4 x5 where
    s1: "Conv2d_call (Conv2d c1 32 3 1) [n, c, h, w] = Inr x1" and
    s2: "Conv2d_call (Conv2d 32 32 3 2) x1 = Inr x2" and
    s3: "MaxPool2d_call (MaxPool2d 2) x2 = Inr x3" and
    s4: "Conv2d_call (Conv2d 32 64 3 2) x3 = Inr x4" and
    s5: "Conv2d_call (Conv2d 64 64 3 2) x4 = Inr x5" and
    s6: "MaxPool2d_call (MaxPool2d 2) x5 = Inr y"
    unfolding feature_extractor_def and_then_def activation_call_def layers
    by (simp split: sum.splits)
  from Conv2d_call_batch [OF s1] obtain c1' h1 w1 where x1: "x1 = [n, c1', h1, w1]" by blast
  from Conv2d_call_batch [OF s2 [unfolded x1]] obtain h2 w2 where x2: "x2 = [n, 32, h2, w2]" by auto
  from MaxPool2d_call_batch [OF s3 [unfolded x2]] obtain h3 w3 where x3: "x3 = [n, 32, h3, w3]" by blast
  from Conv2d_call_batch [OF s4 [unfolded x3]] obtain h4 w4 where x4: "x4 = [n, 64, h4, w4]" by auto
  from Conv2d_call_batch [OF s5 [unfolded x4]] obtain h5 w5 where x5: "x5 = [n, 64, h5, w5]" by auto
  from MaxPool2d_call_batch [OF s6 [unfolded x5]] show ?thesis .
qed

text \<open>
  On a batch, \<^verbatim>\<open>forward\<close> of a constructed model returns one row of \<open>64 * k\<close> features per
  element, the flattened output of the last pooling stage.
\<close>

lemma forward_batch_shape:
  assumes init: "CNN_Regression_init sh rate od = Inr model"
    and run: "forward model [n, c, h, w] = Inr out"
  shows "\<exists>k. 0 < k \<and> out = [n, 64 * k]"
proof -
  from run obtain y where y: "feature_extractor model [n, c, h, w] = Inr y"
    and v: "(case y of [] \<Rightarrow> Inl IndexError | m # _ \<Rightarrow> view_rows y m) = Inr out"
    by (auto simp: forward_def and_then_def split: sum.splits)
  from init_layers [OF init] have
    "conv1 model = Conv2d (hd sh) 32 3 1" "conv2 model = Conv2d 32 32 3 2"
    "conv3 model = Conv2d 32 64 3 2" "conv4 model = Conv2d 64 64 3 2"
    "pool1 model = MaxPool2d 2" "pool2 model = MaxPool2d 2"
    by simp_all
  from feature_extractor_batch [OF this y] obtain h' w'
    where shape: "y = [n, 64, h', w']" and pos: "0 < h'" "0 < w'"
    by blast
  from v have "n \<noteq> 0" and "out = [n, (n * (64 * (h' * w'))) div n]"
    unfolding shape by (auto simp: view_rows_def split: if_splits)
  then have "out = [n, 64 * (h' * w')]"
    by simp
  with pos show ?thesis
    by (intro exI [of _ "h' * w'"]) simp
qed

lemma init_example:
  "CNN_Regression_init [12, 128, 128] rate 1 =
     Inr (CNN_backbone.extend
       \<lparr> input_shape = [12, 128, 128], input_channels = 12, output_dim = 1,
         learning_rate = rate, conv1 = Conv2d 12 32 3 1, conv2 = Conv2d 32 32 3 2,
         conv3 = Conv2d 32 64 3 2, conv4 = Conv2d 64 64 3 2, activation_fn = relu,
         output_activation_fn = elu, pool1 = MaxPool2d 2, pool2 = MaxPool2d 2 \<rparr>
       (CNN_Regression.fields (Linear 576 512) (Linear 512 256) (Linear 256 128)
          (Linear 128 1) MSELoss))"
  by (simp add: CNN_Regression_init_def get_output_shape_def feature_extractor_def
      and_then_def activation_call_def window_out_def view_rows_def Let_def)

text \<open>
  Claim C5. The model is to send the flattened features through the fully connected
  head and produce one scalar per input. For the input shape \<open>[12, 128, 128]\<close> the
  constructor builds the head (the output layer is \<open>Linear 128 1\<close>), but \<^verbatim>\<open>forward\<close> on a
  batch of eight such images returns the shape \<open>[8, 576]\<close>: the features themselves, since
  the pass through the head is a \<^verbatim>\<open>TODO\<close> comment.
\<close>

theorem forward_skips_head:
  "map_sum id output_layer (CNN_Regression_init [12, 128, 128] (1 / 1000) 1) = Inr (Linear 128 1) \<and>
   and_then (CNN_Regression_init [12, 128, 128] (1 / 1000) 1)
     (\<lambda>model. forward model [8, 12, 128, 128]) = Inr [8, 576]"
  unfolding init_example
  by (simp add: CNN_backbone.defs CNN_Regression.defs forward_def
      feature_extractor_def and_then_def activation_call_def window_out_def view_rows_def)

text \<open>\<^verbatim>\<open>self.log\<close> turns down the literal \<^verbatim>\<open>...\<close> and leaves the state alone.\<close>

lemma self_log_ellipsis: "self_log st key PyEllipsis = Inl ValueError"
  by (simp add: self_log_def)

text \<open>
  The training and the test step pass what \<^verbatim>\<open>compute_loss\<close> returns to \<^verbatim>\<open>self.log\<close>, and
  end with its \<^verbatim>\<open>ValueError\<close>.
\<close>

lemma training_step_raises: "training_step self st b batch_idx = (Inl ValueError, st)"
  by (simp add: training_step_def compute_loss_def self_log_ellipsis split: prod.splits)

lemma test_step_raises: "test_step self st b batch_idx = (Inl ValueError, st)"
  by (simp add: test_step_def compute_loss_def self_log_ellipsis split: prod.splits)

text \<open>
  Claim C6. The loss of a batch is to be the mean squared error between predictions and
  labels. \<^verbatim>\<open>compute_loss\<close> returns the literal \<^verbatim>\<open>...\<close> for every batch. It is no number:
  whatever value the criterion would give on whatever predictions, the result differs
  from it.
\<close>

theorem compute_loss_ellipsis:
  "compute_loss self (input, labels) = PyEllipsis \<and>
   compute_loss self (input, labels) \<noteq> PyFloat mse"
  by (simp add: compute_loss_def)

text \<open>
  Claim C7. A validation step is to compute a loss and log it, with the parameters left
  as they are. The step hands the literal \<^verbatim>\<open>...\<close> of \<^verbatim>\<open>compute_loss\<close> to \<^verbatim>\<open>self.log\<close>, which
  raises \<^verbatim>\<open>ValueError\<close>: for every model, state and batch the step ends with that
  exception, no call is recorded and no loss is returned. The parameters are indeed
  untouched.
\<close>

theorem validation_step_raises:
  "fst (validation_step self st b batch_idx) = Inl ValueError \<and>
   log_calls (snd (validation_step self st b batch_idx)) = log_calls st \<and>
   parameters (snd (validation_step self st b batch_idx)) = parameters st"
  by (simp add: validation_step_def compute_loss_def self_log_ellipsis split: prod.splits)

end
